theory Spec2Isabelle
  imports Main
begin

section \<open>Python values, objects and the interpreter state\<close>

text \<open>
  The repository is two Python files: \<^verbatim>\<open>transformer_engine/lazy_import.py\<close>, which defines
  three ways of building a lazily imported module and selects one of them from the
  environment, and \<^verbatim>\<open>transformer_engine/__init__.py\<close>, which builds three such modules.
  The code is glue around the interpreter's import system, so the embedding has two layers:
  a small model of the interpreter (objects with an instance dictionary and a class, the
  module registry \<^verbatim>\<open>sys.modules\<close>, the finder, \<^verbatim>\<open>int()\<close>) and, on top of it, one definition
  per function of the source.

  Objects live in a heap and are named by their address, so that two references to one
  module are one object. An object is its class and its instance dictionary; a module
  and its \<^verbatim>\<open>__dict__\<close> (what \<^verbatim>\<open>globals()\<close> returns inside it) are the same heap entry.
  Attributes that Python finds on the type (methods, \<^verbatim>\<open>__class__\<close>, \<^verbatim>\<open>__dict__\<close>) are not
  values of the model: attribute names range over instance dictionaries.
\<close>

type_synonym addr = nat

datatype pyval =
    PyNone
  | PyInt int
  | PyStr string
  | PyRef addr
  | PySpec string \<comment> \<open>the \<^verbatim>\<open>ModuleSpec\<close> of the installed module of that name\<close>

datatype pyerr =
    ModuleNotFoundError string
  | AttributeError string
  | ImportError string
  | ValueError string
  | KeyError string
  | TypeError string
  | ModelStuck \<comment> \<open>not a Python exception: the state is outside what the model describes\<close>

datatype pyclass =
    ModuleType
  | LazyImport_FlavorA
  | LoadedLazyImport addr \<comment> \<open>the class built at line 72, closed over \<^verbatim>\<open>module\<close>\<close>
  | LazyImport_FlavorB
  | LazyModule \<comment> \<open>\<^verbatim>\<open>importlib.util._LazyModule\<close>\<close>
  | DictType

record pyobj =
  ob_class :: pyclass
  ob_dict :: "string \<rightharpoonup> pyval"

text \<open>
  \<open>installed\<close> is the finder: the modules that can be located, each given by the
  namespace that running its body produces. The finder is flat (a dotted name is one key;
  its parent packages are taken as imported already) and a module body does nothing but
  bind names. \<open>import_calls\<close> and \<open>exec_log\<close> are instrumentation: the number of calls
  of \<^verbatim>\<open>__import__\<close> or \<^verbatim>\<open>importlib.import_module\<close>, and the module bodies that
  were run, in order.
\<close>

record world =
  installed :: "string \<rightharpoonup> (string \<rightharpoonup> pyval)"
  heap :: "pyobj list"
  sys_modules :: "string \<rightharpoonup> addr"
  lazy_import_globals :: addr \<comment> \<open>the module object of \<^verbatim>\<open>lazy_import\<close> itself\<close>
  import_calls :: nat
  exec_log :: "string list"

definition heap_get :: "world \<Rightarrow> addr \<Rightarrow> pyobj option" where
  "heap_get w a = (if a < length (heap w) then Some (heap w ! a) else None)"

definition heap_alloc :: "pyobj \<Rightarrow> world \<Rightarrow> addr \<times> world" where
  "heap_alloc ob w = (length (heap w), w\<lparr>heap := heap w @ [ob]\<rparr>)"

definition heap_put :: "addr \<Rightarrow> pyobj \<Rightarrow> world \<Rightarrow> world" where
  "heap_put a ob w = w\<lparr>heap := (heap w)[a := ob]\<rparr>"

section \<open>The strategy selector (lines 134 to 145)\<close>

subsection \<open>The interpreter's \<^verbatim>\<open>int()\<close> and \<^verbatim>\<open>str()\<close> on integers\<close>

text \<open>
  \<^verbatim>\<open>int(s)\<close> on a string, base 10: surrounding whitespace is skipped, one sign is
  allowed, then at least one digit, with single underscores between digits. Characters
  are code points below 256. The limit on the number of digits that recent interpreters
  enforce is not modelled.
\<close>

definition py_isspace :: "char \<Rightarrow> bool" where
  "py_isspace c = (c \<in> set [CHR 0x09, CHR 0x0A, CHR 0x0B, CHR 0x0C, CHR 0x0D, CHR 0x20,
                            CHR 0x85, CHR 0xA0])"

definition py_strip :: "string \<Rightarrow> string" where
  "py_strip s = rev (dropWhile py_isspace (rev (dropWhile py_isspace s)))"

definition digit_value :: "char \<Rightarrow> nat option" where
  "digit_value c = map_of (zip ''0123456789'' [0, 1, 2, 3, 4, 5, 6, 7, 8, 9]) c"

fun int_digits :: "nat \<Rightarrow> string \<Rightarrow> nat option" where
  "int_digits acc [] = Some acc"
| "int_digits acc [c] =
     (case digit_value c of None \<Rightarrow> None | Some d \<Rightarrow> Some (acc * 10 + d))"
| "int_digits acc (c # c' # cs) =
     (if c = CHR ''_''
      then (case digit_value c' of None \<Rightarrow> None
            | Some d \<Rightarrow> int_digits (acc * 10 + d) cs)
      else (case digit_value c of None \<Rightarrow> None
            | Some d \<Rightarrow> int_digits (acc * 10 + d) (c' # cs)))"

definition int_unsigned :: "string \<Rightarrow> nat option" where
  "int_unsigned s =
     (case s of [] \<Rightarrow> None
      | c # cs \<Rightarrow> (case digit_value c of None \<Rightarrow> None | Some d \<Rightarrow> int_digits d cs))"

definition py_int :: "string \<Rightarrow> int option" where
  "py_int s =
     (case py_strip s of [] \<Rightarrow> None
      | c # cs \<Rightarrow>
          if c = CHR ''+'' then map_option int (int_unsigned cs)
          else if c = CHR ''-'' then map_option (\<lambda>n. - int n) (int_unsigned cs)
          else map_option int (int_unsigned (c # cs)))"

definition digit_char :: "nat \<Rightarrow> char" where
  "digit_char d = ''0123456789'' ! d"

function str_nat :: "nat \<Rightarrow> string" where
  "str_nat n = (if n < 10 then [digit_char n] else str_nat (n div 10) @ [digit_char (n mod 10)])"
  by pat_completeness auto
termination
  by (relation "measure id") auto

declare str_nat.simps [simp del]

definition py_str_int :: "int \<Rightarrow> string" where
  "py_str_int n = (if n < 0 then CHR ''-'' # str_nat (nat (- n)) else str_nat (nat n))"

text \<open>
  \<^verbatim>\<open>repr\<close> of a string, as the message of a failed \<^verbatim>\<open>int()\<close> shows it: exact for a
  string without quotes, backslashes and unprintable characters.
\<close>

definition py_repr_str :: "string \<Rightarrow> string" where
  "py_repr_str s = CHR 0x27 # s @ [CHR 0x27]"

subsection \<open>The module-level code\<close>

datatype flavor = FlavorA | FlavorB | FlavorC

type_synonym environ = "string \<rightharpoonup> string"

text \<open>\<^verbatim>\<open>os.environ.get("TE_LAZY_IMPORT_FLAVOR", "1")\<close>\<close>

definition selector_text :: "environ \<Rightarrow> string" where
  "selector_text env =
     (case env ''TE_LAZY_IMPORT_FLAVOR'' of None \<Rightarrow> ''1'' | Some v \<Rightarrow> v)"

text \<open>Line 134: \<^verbatim>\<open>_LazyImportFlavor = int(os.environ.get(...))\<close>\<close>

definition LazyImportFlavor :: "environ \<Rightarrow> pyerr + int" where
  "LazyImportFlavor env =
     (case py_int (selector_text env) of
        None \<Rightarrow> Inl (ValueError (''invalid literal for int() with base 10: ''
                                   @ py_repr_str (selector_text env)))
      | Some n \<Rightarrow> Inr n)"

text \<open>Lines 136 to 145: what the name \<^verbatim>\<open>LazyImport\<close> is bound to, or the error raised.\<close>

definition LazyImport_binding :: "environ \<Rightarrow> pyerr + flavor" where
  "LazyImport_binding env =
     (case LazyImportFlavor env of
        Inl e \<Rightarrow> Inl e
      | Inr n \<Rightarrow>
          if n = 1 then Inr FlavorA
          else if n = 2 then Inr FlavorB
          else if n = 3 then Inr FlavorC
          else Inl (ValueError (''Unknown `TE_LAZY_IMPORT_FLAVOR` value received: ''
                                @ py_str_int n)))"

section \<open>The interpreter's module objects and import system\<close>

text \<open>
  \<^verbatim>\<open>types.ModuleType.__init__(self, name)\<close> writes five entries into the instance
  dictionary and leaves the others alone.
\<close>

definition module_init_dict :: "string \<Rightarrow> (string \<rightharpoonup> pyval) \<Rightarrow> (string \<rightharpoonup> pyval)" where
  "module_init_dict name d =
     d(''__name__'' \<mapsto> PyStr name, ''__doc__'' \<mapsto> PyNone, ''__package__'' \<mapsto> PyNone,
       ''__loader__'' \<mapsto> PyNone, ''__spec__'' \<mapsto> PyNone)"

text \<open>\<^verbatim>\<open>object.__getattribute__(self, x)\<close>: the instance dictionary, whatever the class.\<close>

definition object_getattribute :: "addr \<Rightarrow> string \<Rightarrow> world \<Rightarrow> pyerr + pyval" where
  "object_getattribute a x w =
     (case heap_get w a of
        None \<Rightarrow> Inl ModelStuck
      | Some ob \<Rightarrow> (case ob_dict ob x of None \<Rightarrow> Inl (AttributeError x) | Some v \<Rightarrow> Inr v))"

text \<open>
  \<^verbatim>\<open>m.__getattribute__(x)\<close> and \<^verbatim>\<open>getattr(m, x)\<close> for a module object \<open>m\<close> that the
  import system returned. For a plain module this is the lookup in its dictionary. Any
  other class is outside the model here.
\<close>

definition module_getattribute :: "addr \<Rightarrow> string \<Rightarrow> world \<Rightarrow> pyerr + pyval" where
  "module_getattribute m x w =
     (case heap_get w m of
        None \<Rightarrow> Inl ModelStuck
      | Some ob \<Rightarrow>
          if ob_class ob = ModuleType
          then (case ob_dict ob x of None \<Rightarrow> Inl (AttributeError x) | Some v \<Rightarrow> Inr v)
          else Inl ModelStuck)"

text \<open>\<^verbatim>\<open>object.__setattr__(self, "__class__", c)\<close>\<close>

definition set_class :: "addr \<Rightarrow> pyclass \<Rightarrow> world \<Rightarrow> world" where
  "set_class a c w =
     (case heap_get w a of None \<Rightarrow> w | Some ob \<Rightarrow> heap_put a (ob\<lparr>ob_class := c\<rparr>) w)"

text \<open>\<^verbatim>\<open>d[k] = v\<close> on the dictionary of the object at \<open>d\<close>.\<close>

definition dict_setitem :: "addr \<Rightarrow> string \<Rightarrow> pyval \<Rightarrow> world \<Rightarrow> pyerr + world" where
  "dict_setitem d k v w =
     (case heap_get w d of
        None \<Rightarrow> Inl ModelStuck
      | Some ob \<Rightarrow> Inr (heap_put d (ob\<lparr>ob_dict := (ob_dict ob)(k \<mapsto> v)\<rparr>) w))"

text \<open>
  \<^verbatim>\<open>importlib.util.module_from_spec\<close>: a new plain module carrying its name and spec
  (the loader, package and file entries are not modelled).
\<close>

definition module_from_spec :: "string \<Rightarrow> pyobj" where
  "module_from_spec name =
     \<lparr>ob_class = ModuleType,
      ob_dict = [''__name__'' \<mapsto> PyStr name, ''__spec__'' \<mapsto> PySpec name]\<rparr>"

text \<open>The real loader's \<^verbatim>\<open>exec_module\<close>: run the body of \<open>name\<close> in the module at \<open>m\<close>.\<close>

definition exec_module :: "addr \<Rightarrow> string \<Rightarrow> world \<Rightarrow> pyerr + world" where
  "exec_module m name w =
     (case installed w name of
        None \<Rightarrow> Inl ModelStuck
      | Some body \<Rightarrow>
          (case heap_get w m of
             None \<Rightarrow> Inl ModelStuck
           | Some ob \<Rightarrow>
               Inr ((heap_put m (ob\<lparr>ob_dict := ob_dict ob ++ body\<rparr>) w)
                      \<lparr>exec_log := exec_log w @ [name]\<rparr>)))"

text \<open>
  The import system's \<^verbatim>\<open>_find_and_load\<close>: a name already in the registry is returned
  from there; otherwise it is located, a module is made and registered, and its body run.
\<close>

definition find_and_load :: "string \<Rightarrow> world \<Rightarrow> (pyerr + addr) \<times> world" where
  "find_and_load name w =
     (case sys_modules w name of
        Some m \<Rightarrow> (Inr m, w)
      | None \<Rightarrow>
          (case installed w name of
             None \<Rightarrow> (Inl (ModuleNotFoundError name), w)
           | Some body \<Rightarrow>
               (let (m, w1) = heap_alloc (module_from_spec name) w;
                    w2 = w1\<lparr>sys_modules := (sys_modules w1)(name \<mapsto> m)\<rparr>
                in case exec_module m name w2 of
                     Inl e \<Rightarrow> (Inl e, w)
                   | Inr w3 \<Rightarrow> (Inr m, w3))))"

text \<open>
  \<^verbatim>\<open>__import__(name)\<close> and \<^verbatim>\<open>importlib.import_module(name)\<close>: one counted call of the
  import system. The result is the registry's entry for the full name (what
  \<^verbatim>\<open>import_module\<close> returns; the source ignores what \<^verbatim>\<open>__import__\<close> returns).
\<close>

definition import_module :: "string \<Rightarrow> world \<Rightarrow> (pyerr + addr) \<times> world" where
  "import_module name w = find_and_load name (w\<lparr>import_calls := Suc (import_calls w)\<rparr>)"

section \<open>Variant A: the class-swapping proxy (lines 30 to 82)\<close>

text \<open>
  \<^verbatim>\<open>_LazyImport_FlavorA(name)\<close>: the class defines no constructor, so this is
  \<^verbatim>\<open>ModuleType\<close>'s, which fills the instance dictionary without reading attributes.
\<close>

definition LazyImport_FlavorA_new :: "string \<Rightarrow> world \<Rightarrow> addr \<times> world" where
  "LazyImport_FlavorA_new name w =
     heap_alloc \<lparr>ob_class = LazyImport_FlavorA, ob_dict = module_init_dict name Map.empty\<rparr> w"

text \<open>Lines 54 to 79.\<close>

definition FlavorA_getattribute :: "addr \<Rightarrow> string \<Rightarrow> world \<Rightarrow> (pyerr + pyval) \<times> world" where
  "FlavorA_getattribute self x w =
     (case object_getattribute self ''__name__'' w of
        Inl e \<Rightarrow> (Inl e, w)
      | Inr (PyStr name) \<Rightarrow>
          (case import_module name w of
             (Inl e, w1) \<Rightarrow> (Inl e, w1)
           | (Inr _, w1) \<Rightarrow>
               (case sys_modules w1 name of
                  None \<Rightarrow> (Inl (KeyError name), w1)
                | Some module \<Rightarrow>
                    (let w2 = set_class self (LoadedLazyImport module) w1
                     in (module_getattribute module x w2, w2))))
      | Inr _ \<Rightarrow> (Inl (TypeError ''__import__() argument 1 must be str''), w))"


section \<open>Variant B: the proxy with a parent namespace (lines 85 to 120)\<close>

text \<open>\<^verbatim>\<open>name.split(".")\<close>, which is never empty.\<close>

fun split_dot :: "string \<Rightarrow> string list" where
  "split_dot [] = [[]]"
| "split_dot (c # cs) =
     (if c = CHR ''.'' then [] # split_dot cs
      else (case split_dot cs of [] \<Rightarrow> [[c]] | p # ps \<Rightarrow> (c # p) # ps))"

text \<open>
  Lines 93 to 100. \<open>parent_module_globals\<close> is \<open>None\<close> when the argument is left out;
  \<^verbatim>\<open>globals()\<close> is then the namespace of \<^verbatim>\<open>lazy_import\<close> itself. The two attributes are
  set before \<^verbatim>\<open>super().__init__(name)\<close> runs.
\<close>

definition LazyImport_FlavorB_init :: "string \<Rightarrow> addr option \<Rightarrow> world \<Rightarrow> addr \<times> world" where
  "LazyImport_FlavorB_init name parent_module_globals w =
     (let pmg = (case parent_module_globals of None \<Rightarrow> lazy_import_globals w | Some g \<Rightarrow> g);
          local_name = last (split_dot name);
          d = [''_local_name'' \<mapsto> PyStr local_name, ''_parent_module_globals'' \<mapsto> PyRef pmg]
      in heap_alloc \<lparr>ob_class = LazyImport_FlavorB, ob_dict = module_init_dict name d\<rparr> w)"

text \<open>
  Lines 102 to 112. The three reads of \<^verbatim>\<open>self\<close> find their attribute in the instance
  dictionary; \<^verbatim>\<open>self.__dict__.update(module.__dict__)\<close> reads both dictionaries after the
  store of line 105.
\<close>

definition FlavorB_load :: "addr \<Rightarrow> world \<Rightarrow> (pyerr + addr) \<times> world" where
  "FlavorB_load self w =
     (case object_getattribute self ''__name__'' w of
        Inl e \<Rightarrow> (Inl e, w)
      | Inr (PyStr name) \<Rightarrow>
          (case import_module name w of
             (Inl e, w1) \<Rightarrow> (Inl e, w1)
           | (Inr module, w1) \<Rightarrow>
               (case (object_getattribute self ''_parent_module_globals'' w1,
                      object_getattribute self ''_local_name'' w1) of
                  (Inr (PyRef g), Inr (PyStr local_name)) \<Rightarrow>
                    (case dict_setitem g local_name (PyRef module) w1 of
                       Inl e \<Rightarrow> (Inl e, w1)
                     | Inr w2 \<Rightarrow>
                         (case (heap_get w2 self, heap_get w2 module) of
                            (Some sob, Some mob) \<Rightarrow>
                              (Inr module,
                               heap_put self (sob\<lparr>ob_dict := ob_dict sob ++ ob_dict mob\<rparr>) w2)
                          | _ \<Rightarrow> (Inl ModelStuck, w2)))
                | _ \<Rightarrow> (Inl ModelStuck, w1)))
      | Inr _ \<Rightarrow> (Inl ModelStuck, w))"

text \<open>Lines 114 to 116: called by the interpreter when the normal lookup fails.\<close>

definition FlavorB_getattr :: "addr \<Rightarrow> string \<Rightarrow> world \<Rightarrow> (pyerr + pyval) \<times> world" where
  "FlavorB_getattr self item w =
     (case FlavorB_load self w of
        (Inl e, w1) \<Rightarrow> (Inl e, w1)
      | (Inr module, w1) \<Rightarrow> (module_getattribute module item w1, w1))"

text \<open>Lines 118 to 120; \<^verbatim>\<open>dir(module)\<close> is the set of names in the module's dictionary.\<close>

definition FlavorB_dir :: "addr \<Rightarrow> world \<Rightarrow> (pyerr + string set) \<times> world" where
  "FlavorB_dir self w =
     (case FlavorB_load self w of
        (Inl e, w1) \<Rightarrow> (Inl e, w1)
      | (Inr module, w1) \<Rightarrow>
          (case heap_get w1 module of
             None \<Rightarrow> (Inl ModelStuck, w1)
           | Some mob \<Rightarrow> (Inr (dom (ob_dict mob)), w1)))"

section \<open>Variant C: the standard library's lazy loader (lines 123 to 131)\<close>

text \<open>
  \<^verbatim>\<open>_LazyModule.__getattribute__\<close> of \<^verbatim>\<open>importlib.util\<close>, for a module that has not
  loaded yet: run the real loader on the module itself, refuse if the registry holds
  another object under the name, become a plain module, then read the attribute. (The
  re-application of attributes set on the module between its creation and its loading is
  not modelled.)
\<close>

definition LazyModule_getattribute :: "addr \<Rightarrow> string \<Rightarrow> world \<Rightarrow> (pyerr + pyval) \<times> world" where
  "LazyModule_getattribute self attr w =
     (case object_getattribute self ''__spec__'' w of
        Inl e \<Rightarrow> (Inl e, w)
      | Inr (PySpec original_name) \<Rightarrow>
          (case exec_module self original_name w of
             Inl e \<Rightarrow> (Inl e, w)
           | Inr w1 \<Rightarrow>
               if (case sys_modules w1 original_name of None \<Rightarrow> False | Some m \<Rightarrow> m \<noteq> self)
               then (Inl (ValueError (''module object for '' @ py_repr_str original_name
                        @ '' substituted in sys.modules during a lazy load'')), w1)
               else (let w2 = set_class self ModuleType w1
                     in (module_getattribute self attr w2, w2)))
      | Inr _ \<Rightarrow> (Inl ModelStuck, w))"

section \<open>Attribute access as the interpreter dispatches it\<close>

text \<open>
  \<^verbatim>\<open>obj.x\<close> for the object at \<open>a\<close>. A class with its own \<^verbatim>\<open>__getattribute__\<close> gets
  every read; variant B inherits the module's lookup and its \<^verbatim>\<open>__getattr__\<close> is called
  only when that lookup finds nothing.
\<close>

definition py_getattr :: "addr \<Rightarrow> string \<Rightarrow> world \<Rightarrow> (pyerr + pyval) \<times> world" where
  "py_getattr a x w =
     (case heap_get w a of
        None \<Rightarrow> (Inl ModelStuck, w)
      | Some ob \<Rightarrow>
          (case ob_class ob of
             ModuleType \<Rightarrow> (module_getattribute a x w, w)
           | LazyImport_FlavorA \<Rightarrow> FlavorA_getattribute a x w
           | LoadedLazyImport module \<Rightarrow> (module_getattribute module x w, w)
           | LazyImport_FlavorB \<Rightarrow>
               (case ob_dict ob x of Some v \<Rightarrow> (Inr v, w) | None \<Rightarrow> FlavorB_getattr a x w)
           | LazyModule \<Rightarrow> LazyModule_getattribute a x w
           | DictType \<Rightarrow> (Inl (AttributeError x), w)))"

text \<open>
  \<^verbatim>\<open>importlib.util.find_spec(name)\<close>: for a registered name, the \<^verbatim>\<open>__spec__\<close> of the
  registered module (an attribute read like any other); otherwise what the finder says,
  \<^verbatim>\<open>None\<close> when the name cannot be located.
\<close>

definition find_spec :: "string \<Rightarrow> world \<Rightarrow> (pyerr + pyval) \<times> world" where
  "find_spec name w =
     (case sys_modules w name of
        Some m \<Rightarrow>
          (case py_getattr m ''__spec__'' w of
             (Inl (AttributeError _), w1) \<Rightarrow>
               (Inl (ValueError (name @ ''.__spec__ is not set'')), w1)
           | (Inl e, w1) \<Rightarrow> (Inl e, w1)
           | (Inr PyNone, w1) \<Rightarrow> (Inl (ValueError (name @ ''.__spec__ is None'')), w1)
           | (Inr v, w1) \<Rightarrow> (Inr v, w1))
      | None \<Rightarrow>
          (case installed w name of
             None \<Rightarrow> (Inr PyNone, w)
           | Some _ \<Rightarrow> (Inr (PySpec name), w)))"

text \<open>
  Lines 123 to 131. \<^verbatim>\<open>spec.loader\<close> on \<^verbatim>\<open>None\<close> raises \<^verbatim>\<open>AttributeError\<close>;
  \<^verbatim>\<open>LazyLoader.exec_module\<close> turns the new module into a \<^verbatim>\<open>_LazyModule\<close> without
  running its body.
\<close>

definition LazyImport_FlavorC :: "string \<Rightarrow> world \<Rightarrow> (pyerr + addr) \<times> world" where
  "LazyImport_FlavorC name w =
     (case find_spec name w of
        (Inl e, w1) \<Rightarrow> (Inl e, w1)
      | (Inr (PySpec n), w1) \<Rightarrow>
          (let (module, w2) = heap_alloc (module_from_spec n) w1;
               w3 = w2\<lparr>sys_modules := (sys_modules w2)(name \<mapsto> module)\<rparr>;
               w4 = set_class module LazyModule w3
           in (Inr module, w4))
      | (Inr PyNone, w1) \<Rightarrow> (Inl (AttributeError ''loader''), w1)
      | (Inr _, w1) \<Rightarrow> (Inl ModelStuck, w1))"

section \<open>\<^verbatim>\<open>LazyImport\<close> as selected, and the package initialiser\<close>

text \<open>\<^verbatim>\<open>LazyImport(name)\<close> under each binding of lines 136 to 141.\<close>

definition LazyImport :: "flavor \<Rightarrow> string \<Rightarrow> world \<Rightarrow> (pyerr + addr) \<times> world" where
  "LazyImport f name w =
     (case f of
        FlavorA \<Rightarrow> (let (p, w1) = LazyImport_FlavorA_new name w in (Inr p, w1))
      | FlavorB \<Rightarrow> (let (p, w1) = LazyImport_FlavorB_init name None w in (Inr p, w1))
      | FlavorC \<Rightarrow> LazyImport_FlavorC name w)"

text \<open>
  \<^verbatim>\<open>transformer_engine/__init__.py\<close>, lines 7 and 8: the two eager imports;
  \<^verbatim>\<open>from m import n\<close> raises \<^verbatim>\<open>ImportError\<close> when \<open>m\<close> has no \<open>n\<close>.
\<close>

definition eager_imports :: "world \<Rightarrow> (pyerr + unit) \<times> world" where
  "eager_imports w =
     (case import_module ''transformer_engine.common'' w of
        (Inl e, w1) \<Rightarrow> (Inl e, w1)
      | (Inr _, w1) \<Rightarrow>
          (case import_module ''transformer_engine._version'' w1 of
             (Inl e, w2) \<Rightarrow> (Inl e, w2)
           | (Inr v, w2) \<Rightarrow>
               (case module_getattribute v ''__version__'' w2 of
                  Inl _ \<Rightarrow> (Inl (ImportError ''cannot import name __version__''), w2)
                | Inr _ \<Rightarrow> (Inr (), w2))))"

text \<open>
  The whole initialiser: the eager imports, the import of \<^verbatim>\<open>lazy_import\<close> at line 9
  (which runs the selection of lines 134 to 145), then the three proxies of lines 12 to
  14, returned as \<open>(pytorch, jax, paddle)\<close>.
\<close>

definition package_init ::
  "environ \<Rightarrow> world \<Rightarrow> (pyerr + flavor \<times> addr \<times> addr \<times> addr) \<times> world" where
  "package_init env w =
     (case eager_imports w of
        (Inl e, w2) \<Rightarrow> (Inl e, w2)
      | (Inr _, w2) \<Rightarrow>
     (case LazyImport_binding env of
        Inl e \<Rightarrow> (Inl e, w2)
      | Inr f \<Rightarrow>
     (case LazyImport f ''transformer_engine.pytorch'' w2 of
        (Inl e, w3) \<Rightarrow> (Inl e, w3)
      | (Inr pytorch, w3) \<Rightarrow>
     (case LazyImport f ''transformer_engine.jax'' w3 of
        (Inl e, w4) \<Rightarrow> (Inl e, w4)
      | (Inr jax, w4) \<Rightarrow>
     (case LazyImport f ''transformer_engine.paddle'' w4 of
        (Inl e, w5) \<Rightarrow> (Inl e, w5)
      | (Inr paddle, w5) \<Rightarrow> (Inr (f, pytorch, jax, paddle), w5))))))"

section \<open>The interpreter's \<^verbatim>\<open>repr\<close> and \<^verbatim>\<open>importlib.reload\<close>\<close>



text \<open>\<^verbatim>\<open>repr\<close> of a value inside a formatted text; the text of other objects is not modelled.\<close>

definition py_repr_val :: "pyval \<Rightarrow> pyerr + string" where
  "py_repr_val v =
     (case v of
        PyNone \<Rightarrow> Inr ''None''
      | PyInt n \<Rightarrow> Inr (py_str_int n)
      | PyStr s \<Rightarrow> Inr (py_repr_str s)
      | _ \<Rightarrow> Inl ModelStuck)"





text \<open>
  \<^verbatim>\<open>importlib.reload(module)\<close>. The name is \<^verbatim>\<open>module.__spec__.name\<close>, or
  \<^verbatim>\<open>module.__name__\<close> when that raises \<^verbatim>\<open>AttributeError\<close>.
\<close>

definition reload_name :: "addr \<Rightarrow> world \<Rightarrow> (pyerr + pyval) \<times> world" where
  "reload_name module w =
     (case py_getattr module ''__spec__'' w of
        (Inr (PySpec n), w1) \<Rightarrow> (Inr (PyStr n), w1)
      | (Inr (PyRef _), w1) \<Rightarrow> (Inl ModelStuck, w1)
      | (Inl e, w1) \<Rightarrow>
          (case e of
             AttributeError _ \<Rightarrow>
               (case py_getattr module ''__name__'' w1 of
                  (Inl (AttributeError _), w2) \<Rightarrow>
                    (Inl (TypeError ''reload() argument must be a module''), w2)
                | r \<Rightarrow> r)
           | _ \<Rightarrow> (Inl e, w1))
      | (Inr _, w1) \<Rightarrow>
          (case py_getattr module ''__name__'' w1 of
             (Inl (AttributeError _), w2) \<Rightarrow>
               (Inl (TypeError ''reload() argument must be a module''), w2)
           | r \<Rightarrow> r))"

text \<open>
  The object must be the registry's entry for its name; then the module is located again
  and its body run again in the same object.
\<close>

definition importlib_reload :: "addr \<Rightarrow> world \<Rightarrow> (pyerr + addr) \<times> world" where
  "importlib_reload module w =
     (case reload_name module w of
        (Inl e, w1) \<Rightarrow> (Inl e, w1)
      | (Inr (PyStr name), w1) \<Rightarrow>
          if sys_modules w1 name \<noteq> Some module
          then (Inl (ImportError (''module '' @ name @ '' not in sys.modules'')), w1)
          else (case installed w1 name of
                  None \<Rightarrow>
                    (Inl (ModuleNotFoundError (''spec not found for the module ''
                                               @ py_repr_str name)), w1)
                | Some _ \<Rightarrow>
                    (case exec_module module name w1 of
                       Inl e \<Rightarrow> (Inl e, w1)
                     | Inr w2 \<Rightarrow>
                         (case sys_modules w2 name of
                            None \<Rightarrow> (Inl (KeyError name), w2)
                          | Some m \<Rightarrow> (Inr m, w2))))
      | (Inr v, w1) \<Rightarrow>
          (case py_repr_val v of
             Inl e \<Rightarrow> (Inl e, w1)
           | Inr text \<Rightarrow> (Inl (ImportError (''module '' @ text @ '' not in sys.modules'')), w1)))"

section \<open>What a direct import gives\<close>




section \<open>Auxiliary notions of the proofs\<close>


text \<open>
  Every registry entry is a plain module of the heap: the state of a process that has only
  imported modules in the ordinary way, and in which variants A and B are used.
\<close>

definition registry_plain :: "world \<Rightarrow> bool" where
  "registry_plain w =
     (\<forall>n a. sys_modules w n = Some a \<longrightarrow>
        a < length (heap w) \<and> ob_class (heap w ! a) = ModuleType)"

text \<open>The name can be imported: it is registered already, or the finder locates it.\<close>

definition importable :: "world \<Rightarrow> string \<Rightarrow> bool" where
  "importable w name = (sys_modules w name \<noteq> None \<or> installed w name \<noteq> None)"

text \<open>The result of looking a name up in a module dictionary, as an attribute read gives it.\<close>

definition dict_read :: "(string \<rightharpoonup> pyval) \<Rightarrow> string \<Rightarrow> pyerr + pyval" where
  "dict_read d x = (case d x of None \<Rightarrow> Inl (AttributeError x) | Some v \<Rightarrow> Inr v)"

text \<open>
  The dictionary of a module right after the import system has loaded it: the entries of
  \<open>module_from_spec\<close>, overwritten by what the body binds.
\<close>

definition loaded_dict :: "world \<Rightarrow> string \<Rightarrow> (string \<rightharpoonup> pyval)" where
  "loaded_dict w name =
     ob_dict (module_from_spec name)
       ++ (case installed w name of None \<Rightarrow> Map.empty | Some body \<Rightarrow> body)"

text \<open>
  Variant A on a name that is not registered and that the finder locates: the state after
  the first read on the proxy built in \<open>w\<close>.
\<close>

definition FlavorA_loaded :: "world \<Rightarrow> string \<Rightarrow> world" where
  "FlavorA_loaded w name =
     w\<lparr>heap := heap w @ [\<lparr>ob_class = LoadedLazyImport (Suc (length (heap w))),
                            ob_dict = module_init_dict name Map.empty\<rparr>,
                          \<lparr>ob_class = ModuleType, ob_dict = loaded_dict w name\<rparr>],
       sys_modules := (sys_modules w)(name \<mapsto> Suc (length (heap w))),
       exec_log := exec_log w @ [name],
       import_calls := Suc (import_calls w)\<rparr>"

text \<open>The instance dictionary of a variant-B proxy as its constructor leaves it.\<close>

definition FlavorB_own_dict :: "string \<Rightarrow> addr \<Rightarrow> (string \<rightharpoonup> pyval)" where
  "FlavorB_own_dict name g =
     module_init_dict name
       [''_local_name'' \<mapsto> PyStr (last (split_dot name)),
        ''_parent_module_globals'' \<mapsto> PyRef g]"

text \<open>The names that a variant-B proxy holds in its own dictionary from the start.\<close>

definition FlavorB_own_names :: "string set" where
  "FlavorB_own_names =
     {''__name__'', ''__doc__'', ''__package__'', ''__loader__'', ''__spec__'',
      ''_local_name'', ''_parent_module_globals''}"

text \<open>
  The case in which the claims about variant B are stated: the name is not registered, the
  finder locates it, the parent namespace \<open>g\<close> is an object of the heap, and the module
  body leaves alone the three names that \<^verbatim>\<open>_load\<close> reads back from the proxy after it
  has copied the module's dictionary over the proxy's.
\<close>

definition FlavorB_case :: "world \<Rightarrow> string \<Rightarrow> addr \<Rightarrow> bool" where
  "FlavorB_case w name g =
     (sys_modules w name = None \<and> g < length (heap w) \<and>
      (\<exists>body. installed w name = Some body \<and> body ''__name__'' = None
               \<and> body ''_local_name'' = None \<and> body ''_parent_module_globals'' = None))"

text \<open>
  The state that \<open>k\<close> runs of \<^verbatim>\<open>_load\<close> lead to from \<open>w\<close>, when the proxy
  was built in \<open>w\<close> in that case: the proxy, then the module, are the two new objects.
\<close>

definition FlavorB_resolved :: "world \<Rightarrow> string \<Rightarrow> addr \<Rightarrow> nat \<Rightarrow> world" where
  "FlavorB_resolved w name g k =
     w\<lparr>heap :=
         (heap w @ [\<lparr>ob_class = LazyImport_FlavorB,
                     ob_dict = FlavorB_own_dict name g ++ loaded_dict w name\<rparr>,
                    \<lparr>ob_class = ModuleType, ob_dict = loaded_dict w name\<rparr>])
           [g := (heap w ! g)\<lparr>ob_dict := (ob_dict (heap w ! g))
                   (last (split_dot name) \<mapsto> PyRef (Suc (length (heap w))))\<rparr>],
       sys_modules := (sys_modules w)(name \<mapsto> Suc (length (heap w))),
       exec_log := exec_log w @ [name],
       import_calls := import_calls w + k\<rparr>"



section \<open>A concrete interpreter state\<close>

text \<open>
  A small state for evaluating the definitions: the heap holds the \<^verbatim>\<open>lazy_import\<close>
  module alone, nothing has been imported, and the finder knows the two modules that the
  package imports eagerly and \<^verbatim>\<open>transformer_engine.pytorch\<close>, whose body binds
  \<^verbatim>\<open>attr = 42\<close>. The other two optional subpackages cannot be located.
\<close>

definition demo_world :: world where
  "demo_world =
     \<lparr>installed = [''transformer_engine.common'' \<mapsto> Map.empty,
                   ''transformer_engine._version'' \<mapsto> [''__version__'' \<mapsto> PyStr ''1.0''],
                   ''transformer_engine.pytorch'' \<mapsto> [''attr'' \<mapsto> PyInt 42]],
      heap = [\<lparr>ob_class = ModuleType, ob_dict = Map.empty\<rparr>],
      sys_modules = Map.empty,
      lazy_import_globals = 0,
      import_calls = 0,
      exec_log = []\<rparr>"

section \<open>Facts about the integer conversions\<close>










section \<open>The selector\<close>

lemma py_int_one: "py_int ''1'' = Some 1"
  by (simp add: py_int_def py_strip_def py_isspace_def int_unsigned_def digit_value_def)

lemma LazyImport_FlavorA_total:
  "LazyImport FlavorA name w = (Inr (length (heap w)), snd (LazyImport_FlavorA_new name w))"
  by (simp add: LazyImport_def LazyImport_FlavorA_new_def heap_alloc_def)

lemma LazyImport_FlavorA_heap_length:
  "length (heap (snd (LazyImport_FlavorA_new name w))) = Suc (length (heap w))"
  by (simp add: LazyImport_FlavorA_new_def heap_alloc_def)

text \<open>
  Claim C9. With \<^verbatim>\<open>TE_LAZY_IMPORT_FLAVOR\<close> unset the selector is 1, \<^verbatim>\<open>LazyImport\<close> is
  bound to variant A, and the package initialiser, once its two eager imports have gone
  through, returns the three proxies: no configuration error is raised.
\<close>

theorem unset_selector_defaults_to_FlavorA:
  assumes "env ''TE_LAZY_IMPORT_FLAVOR'' = None"
  shows "LazyImportFlavor env = Inr 1
       \<and> LazyImport_binding env = Inr FlavorA
       \<and> (\<forall>w w2. eager_imports w = (Inr (), w2) \<longrightarrow>
            fst (package_init env w)
              = Inr (FlavorA, length (heap w2), length (heap w2) + 1, length (heap w2) + 2))"
proof -
  have sel: "selector_text env = ''1''"
    using assms by (simp add: selector_text_def)
  have fl: "LazyImportFlavor env = Inr 1"
    by (simp add: LazyImportFlavor_def sel py_int_one)
  have bind: "LazyImport_binding env = Inr FlavorA"
    by (simp add: LazyImport_binding_def fl)
  have init: "fst (package_init env w)
      = Inr (FlavorA, length (heap w2), length (heap w2) + 1, length (heap w2) + 2)"
    if "eager_imports w = (Inr (), w2)" for w w2
    using that
    by (simp add: package_init_def bind LazyImport_FlavorA_total LazyImport_FlavorA_heap_length)
  show ?thesis using fl bind init by blast
qed


theorem unset_selector_defaults_to_FlavorA_witness:
  "(Map.empty :: environ) ''TE_LAZY_IMPORT_FLAVOR'' = None
   \<and> LazyImportFlavor Map.empty = Inr 1
   \<and> LazyImport_binding Map.empty = Inr FlavorA
   \<and> fst (eager_imports demo_world) = Inr ()
   \<and> fst (package_init Map.empty demo_world) = Inr (FlavorA, 3, 4, 5)"
proof -
  have h: "(Map.empty :: environ) ''TE_LAZY_IMPORT_FLAVOR'' = None" by simp
  have f: "fst (eager_imports demo_world) = Inr ()" by code_simp
  then have e: "eager_imports demo_world = (Inr (), snd (eager_imports demo_world))"
    by (metis prod.collapse)
  have l: "length (heap (snd (eager_imports demo_world))) = 3" by code_simp
  show ?thesis
    using unset_selector_defaults_to_FlavorA [OF h] e f l by auto
qed


section \<open>Facts about the import system\<close>

lemma import_module_cached:
  "sys_modules w name = Some m \<Longrightarrow>
   import_module name w = (Inr m, w\<lparr>import_calls := Suc (import_calls w)\<rparr>)"
  by (simp add: import_module_def find_and_load_def)


lemma import_module_fresh:
  "sys_modules w name = None \<Longrightarrow> installed w name = Some body \<Longrightarrow>
   import_module name w
     = (Inr (length (heap w)),
        w\<lparr>import_calls := Suc (import_calls w),
          heap := heap w @ [\<lparr>ob_class = ModuleType,
                             ob_dict = ob_dict (module_from_spec name) ++ body\<rparr>],
          sys_modules := (sys_modules w)(name \<mapsto> length (heap w)),
          exec_log := exec_log w @ [name]\<rparr>)"
  by (simp add: import_module_def find_and_load_def heap_alloc_def exec_module_def
      heap_get_def heap_put_def module_from_spec_def)


text \<open>
  A successful import: the result is the registry's entry, a plain module; older objects
  are untouched; one call is counted; a body runs only when the name was not registered.
\<close>

lemma import_module_importable:
  assumes "registry_plain w" and "importable w name"
  shows "\<exists>m w1. import_module name w = (Inr m, w1)
           \<and> sys_modules w1 name = Some m
           \<and> registry_plain w1
           \<and> length (heap w) \<le> length (heap w1)
           \<and> (\<forall>a < length (heap w). heap w1 ! a = heap w ! a)
           \<and> import_calls w1 = Suc (import_calls w)
           \<and> lazy_import_globals w1 = lazy_import_globals w
           \<and> installed w1 = installed w
           \<and> (case sys_modules w name of
                 Some _ \<Rightarrow> exec_log w1 = exec_log w \<and> heap w1 = heap w
                               \<and> sys_modules w1 = sys_modules w
               | None \<Rightarrow> exec_log w1 = exec_log w @ [name] \<and> m = length (heap w)
                            \<and> sys_modules w1 = (sys_modules w)(name \<mapsto> m)
                            \<and> heap w1 = heap w @ [\<lparr>ob_class = ModuleType,
                                 ob_dict = ob_dict (module_from_spec name)
                                           ++ the (installed w name)\<rparr>])"
proof (cases "sys_modules w name")
  case (Some m)
  then show ?thesis
    using assms(1) by (simp add: import_module_cached registry_plain_def)
next
  case None
  then obtain body where body: "installed w name = Some body"
    using assms(2) by (auto simp: importable_def)
  have plain: "registry_plain
      (w\<lparr>import_calls := Suc (import_calls w),
         heap := heap w @ [\<lparr>ob_class = ModuleType,
                            ob_dict = ob_dict (module_from_spec name) ++ body\<rparr>],
         sys_modules := (sys_modules w)(name \<mapsto> length (heap w)),
         exec_log := exec_log w @ [name]\<rparr>)"
    using assms(1) by (auto simp: registry_plain_def nth_append intro: less_SucI)
  show ?thesis
    using None body plain by (simp add: import_module_fresh nth_append)
qed

section \<open>Variant A\<close>

lemma LazyImport_FlavorA_new_eq:
  "LazyImport_FlavorA_new name w
     = (length (heap w),
        w\<lparr>heap := heap w @ [\<lparr>ob_class = LazyImport_FlavorA,
                               ob_dict = module_init_dict name Map.empty\<rparr>]\<rparr>)"
  by (simp add: LazyImport_FlavorA_new_def heap_alloc_def)

lemma registry_plain_alloc:
  "registry_plain w \<Longrightarrow> registry_plain (w\<lparr>heap := heap w @ [ob]\<rparr>)"
  by (auto simp: registry_plain_def nth_append intro: less_SucI)

lemma importable_alloc:
  "importable (w\<lparr>heap := h\<rparr>) name = importable w name"
  by (simp add: importable_def)

lemma module_init_dict_name: "module_init_dict name d ''__name__'' = Some (PyStr name)"
  by (simp add: module_init_dict_def)


lemma py_getattr_plain:
  "heap_get w m = Some ob \<Longrightarrow> ob_class ob = ModuleType \<Longrightarrow>
   py_getattr m x w = (Inr v, w') \<Longrightarrow> w' = w"
  by (simp add: py_getattr_def)

lemma module_getattribute_plain:
  "heap_get w m = Some ob \<Longrightarrow> ob_class ob = ModuleType \<Longrightarrow>
   module_getattribute m x w = dict_read (ob_dict ob) x"
  by (simp add: module_getattribute_def dict_read_def)


text \<open>
  The first read on a fresh proxy of variant A, for a name that can be imported: one
  call of the import system, the class swap, and the read on the real module.
\<close>

lemma FlavorA_first_read:
  assumes plain: "registry_plain w" and imp: "importable w name"
  shows "\<exists>m w2. py_getattr (length (heap w)) x (snd (LazyImport_FlavorA_new name w))
                  = (module_getattribute m x w2, w2)
           \<and> heap_get w2 (length (heap w))
               = Some \<lparr>ob_class = LoadedLazyImport m,
                       ob_dict = module_init_dict name Map.empty\<rparr>
           \<and> sys_modules w2 name = Some m
           \<and> registry_plain w2
           \<and> import_calls w2 = Suc (import_calls w)
           \<and> installed w2 = installed w
           \<and> (case sys_modules w name of
                 Some _ \<Rightarrow> exec_log w2 = exec_log w \<and> sys_modules w2 = sys_modules w
               | None \<Rightarrow> exec_log w2 = exec_log w @ [name]
                          \<and> sys_modules w2 = (sys_modules w)(name \<mapsto> m))"
proof -
  let ?p = "length (heap w)"
  let ?pob = "\<lparr>ob_class = LazyImport_FlavorA, ob_dict = module_init_dict name Map.empty\<rparr>"
  let ?w0 = "w\<lparr>heap := heap w @ [?pob]\<rparr>"
  have w0: "snd (LazyImport_FlavorA_new name w) = ?w0"
    by (simp add: LazyImport_FlavorA_new_eq)
  have plain0: "registry_plain ?w0" using plain by (rule registry_plain_alloc)
  have imp0: "importable ?w0 name" using imp by (simp add: importable_alloc)
  from import_module_importable [OF plain0 imp0]
  obtain m w1 where imp1: "import_module name ?w0 = (Inr m, w1)"
    and reg1: "sys_modules w1 name = Some m"
    and plain1: "registry_plain w1"
    and len1: "length (heap ?w0) \<le> length (heap w1)"
    and old1: "\<forall>a < length (heap ?w0). heap w1 ! a = heap ?w0 ! a"
    and calls1: "import_calls w1 = Suc (import_calls ?w0)"
    and inst1: "installed w1 = installed ?w0"
    and log1: "(case sys_modules ?w0 name of
                 Some _ \<Rightarrow> exec_log w1 = exec_log ?w0 \<and> heap w1 = heap ?w0
                               \<and> sys_modules w1 = sys_modules ?w0
               | None \<Rightarrow> exec_log w1 = exec_log ?w0 @ [name] \<and> m = length (heap ?w0)
                            \<and> sys_modules w1 = (sys_modules ?w0)(name \<mapsto> m)
                            \<and> heap w1 = heap ?w0 @ [\<lparr>ob_class = ModuleType,
                                 ob_dict = ob_dict (module_from_spec name)
                                           ++ the (installed ?w0 name)\<rparr>])"
    by blast
  have get0: "heap_get ?w0 ?p = Some ?pob" by (simp add: heap_get_def)
  have p1: "heap w1 ! ?p = ?pob" using old1 by simp
  have get1: "heap_get w1 ?p = Some ?pob" using len1 p1 by (simp add: heap_get_def)
  let ?w2 = "set_class ?p (LoadedLazyImport m) w1"
  have w2: "?w2 = w1\<lparr>heap := (heap w1)[?p := ?pob\<lparr>ob_class := LoadedLazyImport m\<rparr>]\<rparr>"
    using get1 by (simp add: set_class_def heap_put_def)
  have read: "py_getattr ?p x ?w0 = (module_getattribute m x ?w2, ?w2)"
    using get0 imp1 reg1
    by (simp add: py_getattr_def FlavorA_getattribute_def object_getattribute_def
        module_init_dict_name Let_def)
  have get2: "heap_get ?w2 ?p
      = Some \<lparr>ob_class = LoadedLazyImport m, ob_dict = module_init_dict name Map.empty\<rparr>"
    using len1 by (simp add: w2 heap_get_def)
  have plain2: "registry_plain ?w2"
    unfolding registry_plain_def
  proof (intro allI impI)
    fix n a assume "sys_modules ?w2 n = Some a"
    then have a: "sys_modules w1 n = Some a" by (simp add: w2)
    with plain1 have a1: "a < length (heap w1)" "ob_class (heap w1 ! a) = ModuleType"
      by (auto simp: registry_plain_def)
    have "a \<noteq> ?p" using a1(2) p1 by auto
    then show "a < length (heap ?w2) \<and> ob_class (heap ?w2 ! a) = ModuleType"
      using a1 by (simp add: w2)
  qed
  have rest: "sys_modules ?w2 name = Some m" "import_calls ?w2 = Suc (import_calls w)"
    "installed ?w2 = installed w"
    using reg1 calls1 inst1 by (simp_all add: w2)
  have same: "exec_log ?w2 = exec_log w1" "sys_modules ?w2 = sys_modules w1"
    by (simp_all add: w2)
  have log2: "(case sys_modules w name of
                 Some _ \<Rightarrow> exec_log ?w2 = exec_log w \<and> sys_modules ?w2 = sys_modules w
               | None \<Rightarrow> exec_log ?w2 = exec_log w @ [name]
                          \<and> sys_modules ?w2 = (sys_modules w)(name \<mapsto> m))"
    using log1 unfolding same by (cases "sys_modules w name") simp_all
  show ?thesis
    unfolding w0 using read get2 plain2 rest log2 by blast
qed


text \<open>The first read on a fresh proxy of variant A, in each of the three cases.\<close>

lemma loaded_dict_heap [simp]: "loaded_dict (w\<lparr>heap := h\<rparr>) name = loaded_dict w name"
  by (simp add: loaded_dict_def)

lemma py_getattr_FlavorA_fresh:
  assumes "sys_modules w name = None" and "installed w name = Some body"
  shows "py_getattr (length (heap w)) x (snd (LazyImport_FlavorA_new name w))
     = (dict_read (loaded_dict w name) x, FlavorA_loaded w name)"
proof -
  let ?p = "length (heap w)"
  let ?pob = "\<lparr>ob_class = LazyImport_FlavorA, ob_dict = module_init_dict name Map.empty\<rparr>"
  let ?w0 = "w\<lparr>heap := heap w @ [?pob]\<rparr>"
  let ?mob = "\<lparr>ob_class = ModuleType, ob_dict = loaded_dict w name\<rparr>"
  let ?w1 = "?w0\<lparr>import_calls := Suc (import_calls ?w0),
          heap := heap ?w0 @ [?mob],
          sys_modules := (sys_modules ?w0)(name \<mapsto> length (heap ?w0)),
          exec_log := exec_log ?w0 @ [name]\<rparr>"
  have imp: "import_module name ?w0 = (Inr (Suc ?p), ?w1)"
    using import_module_fresh [of ?w0 name body] assms by (simp add: loaded_dict_def)
  have name: "object_getattribute ?p ''__name__'' ?w0 = Inr (PyStr name)"
    by (simp add: object_getattribute_def heap_get_def module_init_dict_name)
  have reg: "sys_modules ?w1 name = Some (Suc ?p)" by simp
  have cl: "set_class ?p (LoadedLazyImport (Suc ?p)) ?w1 = FlavorA_loaded w name"
    by (simp add: set_class_def heap_get_def heap_put_def nth_append FlavorA_loaded_def)
  have get: "heap_get (FlavorA_loaded w name) (Suc ?p) = Some ?mob"
    by (simp add: FlavorA_loaded_def heap_get_def nth_append)
  have rd: "module_getattribute (Suc ?p) x (FlavorA_loaded w name)
      = dict_read (loaded_dict w name) x"
    using module_getattribute_plain [OF get] by simp
  have "FlavorA_getattribute ?p x ?w0 = (dict_read (loaded_dict w name) x, FlavorA_loaded w name)"
    by (simp only: FlavorA_getattribute_def name imp reg cl rd
        sum.case pyval.case prod.case option.case Let_def)
  then show ?thesis
    by (simp add: LazyImport_FlavorA_new_eq py_getattr_def heap_get_def)
qed







section \<open>Variant B\<close>

lemma LazyImport_FlavorB_init_eq:
  "LazyImport_FlavorB_init name pmg w
     = (length (heap w),
        w\<lparr>heap := heap w @ [\<lparr>ob_class = LazyImport_FlavorB,
             ob_dict = FlavorB_own_dict name
               (case pmg of None \<Rightarrow> lazy_import_globals w | Some g \<Rightarrow> g)\<rparr>]\<rparr>)"
  by (simp add: LazyImport_FlavorB_init_def heap_alloc_def FlavorB_own_dict_def Let_def)

lemma FlavorB_own_dict_dom: "dom (FlavorB_own_dict name g) = FlavorB_own_names"
  by (auto simp: FlavorB_own_dict_def FlavorB_own_names_def module_init_dict_def
      split: if_splits)

lemma FlavorB_own_dict_None:
  "x \<notin> FlavorB_own_names \<Longrightarrow> FlavorB_own_dict name g x = None"
  using FlavorB_own_dict_dom [of name g] by blast

lemma FlavorB_own_dict_values:
  "FlavorB_own_dict name g ''__name__'' = Some (PyStr name)"
  "FlavorB_own_dict name g ''_local_name'' = Some (PyStr (last (split_dot name)))"
  "FlavorB_own_dict name g ''_parent_module_globals'' = Some (PyRef g)"
  by (simp_all add: FlavorB_own_dict_def module_init_dict_def)




text \<open>The objects of the resolved state.\<close>

lemma FlavorB_resolved_objects:
  assumes "g < length (heap w)"
  shows "heap_get (FlavorB_resolved w name g k) (length (heap w))
           = Some \<lparr>ob_class = LazyImport_FlavorB,
                   ob_dict = FlavorB_own_dict name g ++ loaded_dict w name\<rparr>"
    and "heap_get (FlavorB_resolved w name g k) (Suc (length (heap w)))
           = Some \<lparr>ob_class = ModuleType, ob_dict = loaded_dict w name\<rparr>"
    and "heap_get (FlavorB_resolved w name g k) g
           = Some ((heap w ! g)\<lparr>ob_dict := (ob_dict (heap w ! g))
                   (last (split_dot name) \<mapsto> PyRef (Suc (length (heap w))))\<rparr>)"
    and "sys_modules (FlavorB_resolved w name g k) name = Some (Suc (length (heap w)))"
  using assms by (simp_all add: FlavorB_resolved_def heap_get_def nth_append)

text \<open>\<^verbatim>\<open>_load\<close> on the fresh proxy, and on the resolved one.\<close>

lemma FlavorB_load_first:
  assumes c: "FlavorB_case w name g"
  shows "FlavorB_load (length (heap w))
           (w\<lparr>heap := heap w @ [\<lparr>ob_class = LazyImport_FlavorB,
                                  ob_dict = FlavorB_own_dict name g\<rparr>]\<rparr>)
         = (Inr (Suc (length (heap w))), FlavorB_resolved w name g (Suc 0))"
proof -
  let ?p = "length (heap w)"
  let ?pob = "\<lparr>ob_class = LazyImport_FlavorB, ob_dict = FlavorB_own_dict name g\<rparr>"
  let ?w0 = "w\<lparr>heap := heap w @ [?pob]\<rparr>"
  from c obtain body where fresh: "sys_modules w name = None" and g: "g < ?p"
    and body: "installed w name = Some body"
    by (auto simp: FlavorB_case_def)
  let ?mob = "\<lparr>ob_class = ModuleType, ob_dict = loaded_dict w name\<rparr>"
  let ?w1 = "?w0\<lparr>import_calls := Suc (import_calls ?w0),
          heap := heap ?w0 @ [?mob],
          sys_modules := (sys_modules ?w0)(name \<mapsto> length (heap ?w0)),
          exec_log := exec_log ?w0 @ [name]\<rparr>"
  have imp: "import_module name ?w0 = (Inr (Suc ?p), ?w1)"
    using import_module_fresh [of ?w0 name body] fresh body
    by (simp add: loaded_dict_def)
  have name: "object_getattribute ?p ''__name__'' ?w0 = Inr (PyStr name)"
    by (simp add: object_getattribute_def heap_get_def FlavorB_own_dict_values)
  have reads: "object_getattribute ?p ''_parent_module_globals'' ?w1 = Inr (PyRef g)"
    "object_getattribute ?p ''_local_name'' ?w1 = Inr (PyStr (last (split_dot name)))"
    by (simp_all add: object_getattribute_def heap_get_def nth_append FlavorB_own_dict_values)
  let ?gob = "(heap w ! g)\<lparr>ob_dict := (ob_dict (heap w ! g))
                   (last (split_dot name) \<mapsto> PyRef (Suc ?p))\<rparr>"
  let ?w2 = "heap_put g ?gob ?w1"
  have set: "dict_setitem g (last (split_dot name)) (PyRef (Suc ?p)) ?w1 = Inr ?w2"
    using g by (simp add: dict_setitem_def heap_get_def nth_append)
  have gets: "heap_get ?w2 ?p = Some ?pob" "heap_get ?w2 (Suc ?p) = Some ?mob"
    using g by (simp_all add: heap_put_def heap_get_def nth_append)
  have final: "heap_put ?p (?pob\<lparr>ob_dict := ob_dict ?pob ++ ob_dict ?mob\<rparr>) ?w2
      = FlavorB_resolved w name g (Suc 0)"
    using g by (simp add: heap_put_def FlavorB_resolved_def list_update_swap
        list_update_append)
  show ?thesis
    by (simp only: FlavorB_load_def name imp reads set gets final
        sum.case pyval.case prod.case option.case)
qed


text \<open>A read on the fresh proxy, and on the resolved one.\<close>

lemma py_getattr_FlavorB_fresh:
  assumes c: "FlavorB_case w name g"
  shows "py_getattr (length (heap w)) x
           (w\<lparr>heap := heap w @ [\<lparr>ob_class = LazyImport_FlavorB,
                                  ob_dict = FlavorB_own_dict name g\<rparr>]\<rparr>)
         = (case FlavorB_own_dict name g x of
              Some v \<Rightarrow> (Inr v, w\<lparr>heap := heap w @ [\<lparr>ob_class = LazyImport_FlavorB,
                                  ob_dict = FlavorB_own_dict name g\<rparr>]\<rparr>)
            | None \<Rightarrow> (dict_read (loaded_dict w name) x, FlavorB_resolved w name g (Suc 0)))"
proof -
  from c have g: "g < length (heap w)" by (simp add: FlavorB_case_def)
  have m: "module_getattribute (Suc (length (heap w))) x (FlavorB_resolved w name g (Suc 0))
      = dict_read (loaded_dict w name) x"
    using module_getattribute_plain [OF FlavorB_resolved_objects(2) [OF g]] by simp
  show ?thesis
    by (cases "FlavorB_own_dict name g x")
       (simp_all add: py_getattr_def heap_get_def FlavorB_getattr_def
          FlavorB_load_first [OF c] m)
qed




section \<open>Variant C\<close>








section \<open>Construction\<close>




section \<open>Where and how errors surface\<close>




section \<open>Forwarding after resolution\<close>







section \<open>Resolution happens once\<close>





section \<open>The side effects of variant B's \<^verbatim>\<open>_load\<close>\<close>







section \<open>Reloading\<close>

text \<open>
  \<^verbatim>\<open>importlib.reload\<close> on an object that is not a registry entry, and whose
  \<^verbatim>\<open>__spec__\<close> and \<^verbatim>\<open>__name__\<close> can be read without effect: it fails, and nothing
  changes.
\<close>

lemma reload_name_pure:
  assumes "py_getattr p ''__spec__'' w = (rs, w)" and "py_getattr p ''__name__'' w = (rn, w)"
  shows "snd (reload_name p w) = w"
  using assms
  by (auto simp: reload_name_def split: sum.splits pyval.splits pyerr.splits)

lemma reload_unregistered_fails:
  assumes "py_getattr p ''__spec__'' w = (rs, w)" and "py_getattr p ''__name__'' w = (rn, w)"
    and "\<forall>n. sys_modules w n \<noteq> Some p"
  shows "\<exists>e. importlib_reload p w = (Inl e, w)"
proof -
  obtain r where r: "reload_name p w = (r, w)"
    using reload_name_pure [OF assms(1,2)] by (cases "reload_name p w") auto
  show ?thesis
    using assms(3)
    by (auto simp: importlib_reload_def r split: sum.splits pyval.splits)
qed

lemma reload_unregistered_spec:
  assumes "py_getattr p ''__spec__'' w = (Inr (PySpec n), w)"
    and "\<forall>n. sys_modules w n \<noteq> Some p"
  shows "importlib_reload p w
     = (Inl (ImportError (''module '' @ n @ '' not in sys.modules'')), w)"
  using assms by (simp add: importlib_reload_def reload_name_def)

lemma proxy_not_registered:
  assumes "registry_plain w" and "heap_get w p = Some ob" and "ob_class ob \<noteq> ModuleType"
  shows "\<forall>n. sys_modules w n \<noteq> Some p"
  using assms by (auto simp: registry_plain_def heap_get_def split: if_splits)

lemma registry_plain_FlavorB_resolved:
  assumes "registry_plain w" and "g < length (heap w)"
  shows "registry_plain (FlavorB_resolved w name g k)"
  unfolding registry_plain_def
proof (intro allI impI)
  fix n a
  assume a: "sys_modules (FlavorB_resolved w name g k) n = Some a"
  show "a < length (heap (FlavorB_resolved w name g k))
      \<and> ob_class (heap (FlavorB_resolved w name g k) ! a) = ModuleType"
  proof (cases "n = name")
    case True
    then have "a = Suc (length (heap w))" using a by (simp add: FlavorB_resolved_def)
    then show ?thesis using assms(2) by (simp add: FlavorB_resolved_def nth_append)
  next
    case False
    then have "sys_modules w n = Some a" using a by (simp add: FlavorB_resolved_def)
    then have "a < length (heap w)" "ob_class (heap w ! a) = ModuleType"
      using assms(1) by (auto simp: registry_plain_def)
    then show ?thesis
      using assms(2) by (cases "a = g") (simp_all add: FlavorB_resolved_def nth_append)
  qed
qed

text \<open>
  Claim C6, as stated, fails for variant C, whose proxy is the registered module itself:
  after \<^verbatim>\<open>proxy.attr\<close> has loaded it, \<^verbatim>\<open>importlib.reload(proxy)\<close> returns the module
  and has run its body a second time.
\<close>

theorem FlavorC_reload_runs_body_again:
  "fst (importlib_reload 1
          (snd (py_getattr 1 ''attr''
             (snd (LazyImport FlavorC ''transformer_engine.pytorch'' demo_world)))))
     = Inr 1
   \<and> exec_log (snd (py_getattr 1 ''attr''
             (snd (LazyImport FlavorC ''transformer_engine.pytorch'' demo_world))))
       = [''transformer_engine.pytorch'']
   \<and> exec_log (snd (importlib_reload 1
          (snd (py_getattr 1 ''attr''
             (snd (LazyImport FlavorC ''transformer_engine.pytorch'' demo_world))))))
       = [''transformer_engine.pytorch'', ''transformer_engine.pytorch'']"
  by code_simp

text \<open>
  Claim C6, amended: under variants A and B, \<^verbatim>\<open>importlib.reload\<close> on a resolved proxy
  fails and leaves the interpreter state as it is, so nothing is imported again.
  \<^item> In any state whose registry holds plain modules, for an object whose class is the
    one of line 72, or a variant-B proxy that holds \<^verbatim>\<open>__spec__\<close> and \<^verbatim>\<open>__name__\<close>:
    the reload fails without effect, and when the object's \<^verbatim>\<open>__spec__\<close> is a module
    spec the error is the \<^verbatim>\<open>ImportError\<close> saying that the module of that name is not in
    \<^verbatim>\<open>sys.modules\<close>.
  \<^item> Such states are the ones that a first read leads to: under variant A for any name
    that can be imported, under variant B in the case described by \<open>FlavorB_case\<close>
    when the read is of a name that the proxy does not hold itself.
\<close>

theorem reload_of_resolved_proxy_fails:
  "(registry_plain w \<and> heap_get w p = Some ob
      \<and> ((\<exists>m. ob_class ob = LoadedLazyImport m)
           \<or> (ob_class ob = LazyImport_FlavorB \<and> ob_dict ob ''__spec__'' \<noteq> None
                \<and> ob_dict ob ''__name__'' \<noteq> None)) \<longrightarrow>
      (\<exists>e. importlib_reload p w = (Inl e, w))
      \<and> (\<forall>n. fst (py_getattr p ''__spec__'' w) = Inr (PySpec n) \<longrightarrow>
            importlib_reload p w
              = (Inl (ImportError (''module '' @ n @ '' not in sys.modules'')), w)))
   \<and> (registry_plain w \<and> importable w name \<longrightarrow>
      (\<forall>x0. \<exists>e. importlib_reload (length (heap w))
                   (snd (py_getattr (length (heap w)) x0 (snd (LazyImport FlavorA name w))))
                 = (Inl e, snd (py_getattr (length (heap w)) x0
                                  (snd (LazyImport FlavorA name w))))))
   \<and> (registry_plain w \<and> FlavorB_case w name (lazy_import_globals w) \<longrightarrow>
      (\<forall>x0. x0 \<notin> FlavorB_own_names \<longrightarrow>
         (\<exists>e. importlib_reload (length (heap w))
                   (snd (py_getattr (length (heap w)) x0 (snd (LazyImport FlavorB name w))))
                 = (Inl e, snd (py_getattr (length (heap w)) x0
                                  (snd (LazyImport FlavorB name w)))))))"
proof -
  have general: "(\<exists>e. importlib_reload p w = (Inl e, w))
      \<and> (\<forall>n. fst (py_getattr p ''__spec__'' w) = Inr (PySpec n) \<longrightarrow>
            importlib_reload p w
              = (Inl (ImportError (''module '' @ n @ '' not in sys.modules'')), w))"
    if plain: "registry_plain w" and get: "heap_get w p = Some ob"
      and cls: "(\<exists>m. ob_class ob = LoadedLazyImport m)
           \<or> (ob_class ob = LazyImport_FlavorB \<and> ob_dict ob ''__spec__'' \<noteq> None
                \<and> ob_dict ob ''__name__'' \<noteq> None)"
    for w p ob
  proof -
    have notmod: "ob_class ob \<noteq> ModuleType" using cls by auto
    have unreg: "\<forall>n. sys_modules w n \<noteq> Some p"
      using proxy_not_registered [OF plain get notmod] .
    have pure: "\<exists>rs rn. py_getattr p ''__spec__'' w = (rs, w)
        \<and> py_getattr p ''__name__'' w = (rn, w)"
      using cls get by (auto simp: py_getattr_def)
    then obtain rs rn where rs: "py_getattr p ''__spec__'' w = (rs, w)"
      and rn: "py_getattr p ''__name__'' w = (rn, w)" by blast
    have fails: "\<exists>e. importlib_reload p w = (Inl e, w)"
      using reload_unregistered_fails [OF rs rn unreg] .
    have crisp: "importlib_reload p w
        = (Inl (ImportError (''module '' @ n @ '' not in sys.modules'')), w)"
      if "fst (py_getattr p ''__spec__'' w) = Inr (PySpec n)" for n
      using that rs reload_unregistered_spec [of p w n, OF _ unreg] by simp
    show ?thesis using fails crisp by blast
  qed
  have a: "\<exists>e. importlib_reload (length (heap w))
                   (snd (py_getattr (length (heap w)) x0 (snd (LazyImport FlavorA name w))))
                 = (Inl e, snd (py_getattr (length (heap w)) x0
                                  (snd (LazyImport FlavorA name w))))"
    if h: "registry_plain w \<and> importable w name" for x0
  proof -
    have wA: "snd (LazyImport FlavorA name w) = snd (LazyImport_FlavorA_new name w)"
      by (simp add: LazyImport_def LazyImport_FlavorA_new_eq)
    from h FlavorA_first_read [of w name x0]
    obtain m w2 where
      rd: "py_getattr (length (heap w)) x0 (snd (LazyImport_FlavorA_new name w))
             = (module_getattribute m x0 w2, w2)"
      and get: "heap_get w2 (length (heap w))
                  = Some \<lparr>ob_class = LoadedLazyImport m,
                          ob_dict = module_init_dict name Map.empty\<rparr>"
      and plain: "registry_plain w2"
      by blast
    have "\<exists>e. importlib_reload (length (heap w)) w2 = (Inl e, w2)"
      using general [OF plain get] by simp
    then show ?thesis by (simp add: wA rd)
  qed
  have b: "\<exists>e. importlib_reload (length (heap w))
                   (snd (py_getattr (length (heap w)) x0 (snd (LazyImport FlavorB name w))))
                 = (Inl e, snd (py_getattr (length (heap w)) x0
                                  (snd (LazyImport FlavorB name w))))"
    if h: "registry_plain w \<and> FlavorB_case w name (lazy_import_globals w)"
      and x0: "x0 \<notin> FlavorB_own_names" for x0
  proof -
    let ?g = "lazy_import_globals w"
    from h have c: "FlavorB_case w name ?g" and plain: "registry_plain w" by simp_all
    from c have g: "?g < length (heap w)" by (simp add: FlavorB_case_def)
    have w1: "snd (py_getattr (length (heap w)) x0 (snd (LazyImport FlavorB name w)))
        = FlavorB_resolved w name ?g (Suc 0)"
      using py_getattr_FlavorB_fresh [OF c, of x0] FlavorB_own_dict_None [OF x0]
      by (simp add: LazyImport_def LazyImport_FlavorB_init_eq)
    note obs = FlavorB_resolved_objects [OF g, of name "Suc 0"]
    have d: "(FlavorB_own_dict name ?g ++ loaded_dict w name) ''__spec__'' \<noteq> None"
      "(FlavorB_own_dict name ?g ++ loaded_dict w name) ''__name__'' \<noteq> None"
      by (simp_all add: FlavorB_own_dict_def module_init_dict_def)
    have "\<exists>e. importlib_reload (length (heap w)) (FlavorB_resolved w name ?g (Suc 0))
        = (Inl e, FlavorB_resolved w name ?g (Suc 0))"
      using general [OF registry_plain_FlavorB_resolved [OF plain g] obs(1)] d
      by (simp del: map_add_None)
    then show ?thesis by (simp only: w1)
  qed
  show ?thesis
    using general [of w p ob] a b by blast
qed

theorem reload_of_resolved_proxy_fails_witness:
  "registry_plain (snd (py_getattr 1 ''attr''
       (snd (LazyImport FlavorA ''transformer_engine.pytorch'' demo_world))))
   \<and> heap_get (snd (py_getattr 1 ''attr''
       (snd (LazyImport FlavorA ''transformer_engine.pytorch'' demo_world)))) 1
       = Some \<lparr>ob_class = LoadedLazyImport 2,
               ob_dict = module_init_dict ''transformer_engine.pytorch'' Map.empty\<rparr>
   \<and> fst (py_getattr 1 ''__spec__'' (snd (py_getattr 1 ''attr''
       (snd (LazyImport FlavorA ''transformer_engine.pytorch'' demo_world)))))
       = Inr (PySpec ''transformer_engine.pytorch'')
   \<and> importlib_reload 1 (snd (py_getattr 1 ''attr''
       (snd (LazyImport FlavorA ''transformer_engine.pytorch'' demo_world))))
       = (Inl (ImportError (''module '' @ ''transformer_engine.pytorch''
                            @ '' not in sys.modules'')),
          snd (py_getattr 1 ''attr''
            (snd (LazyImport FlavorA ''transformer_engine.pytorch'' demo_world))))
   \<and> registry_plain demo_world
   \<and> importable demo_world ''transformer_engine.pytorch''
   \<and> FlavorB_case demo_world ''transformer_engine.pytorch'' (lazy_import_globals demo_world)
   \<and> ''attr'' \<notin> FlavorB_own_names
   \<and> snd (importlib_reload 1 (snd (py_getattr 1 ''attr''
       (snd (LazyImport FlavorB ''transformer_engine.pytorch'' demo_world)))))
       = snd (py_getattr 1 ''attr''
           (snd (LazyImport FlavorB ''transformer_engine.pytorch'' demo_world)))
   \<and> fst (importlib_reload 1 (snd (py_getattr 1 ''attr''
       (snd (LazyImport FlavorB ''transformer_engine.pytorch'' demo_world)))))
       = Inl (ImportError (''module '' @ ''transformer_engine.pytorch''
                            @ '' not in sys.modules''))"
proof -
  let ?pt = "''transformer_engine.pytorch''"
  let ?wA = "snd (py_getattr 1 ''attr'' (snd (LazyImport FlavorA ?pt demo_world)))"
  let ?wB = "snd (py_getattr 1 ''attr'' (snd (LazyImport FlavorB ?pt demo_world)))"
  let ?ob = "\<lparr>ob_class = LoadedLazyImport 2, ob_dict = module_init_dict ?pt Map.empty\<rparr>"
  have len: "length (heap demo_world) = 1" by (simp add: demo_world_def)
  have fresh: "sys_modules demo_world ?pt = None"
    "installed demo_world ?pt = Some [''attr'' \<mapsto> PyInt 42]"
    by (simp_all add: demo_world_def)
  have wA: "?wA = FlavorA_loaded demo_world ?pt"
    using py_getattr_FlavorA_fresh [OF fresh, of "''attr''"]
    by (simp add: LazyImport_def LazyImport_FlavorA_new_eq len)
  have plainA: "registry_plain ?wA"
    unfolding wA
    by (auto simp: registry_plain_def FlavorA_loaded_def demo_world_def split: if_splits)
  have getA: "heap_get ?wA 1 = Some ?ob"
    unfolding wA by (simp add: FlavorA_loaded_def heap_get_def demo_world_def)
  have specA: "fst (py_getattr 1 ''__spec__'' ?wA) = Inr (PySpec ?pt)" by code_simp
  have cls: "(\<exists>m. ob_class ?ob = LoadedLazyImport m)
           \<or> (ob_class ?ob = LazyImport_FlavorB \<and> ob_dict ?ob ''__spec__'' \<noteq> None
                \<and> ob_dict ?ob ''__name__'' \<noteq> None)" by simp
  have plain: "registry_plain demo_world"
    by (simp add: registry_plain_def demo_world_def)
  have imp: "importable demo_world ?pt"
    by (simp add: importable_def demo_world_def)
  have bc: "FlavorB_case demo_world ?pt (lazy_import_globals demo_world)"
    by (simp add: FlavorB_case_def demo_world_def)
  have own: "''attr'' \<notin> FlavorB_own_names" by (simp add: FlavorB_own_names_def)
  note inst1 = reload_of_resolved_proxy_fails [where w = ?wA and p = 1 and ob = ?ob, THEN conjunct1]
  have ra: "importlib_reload 1 ?wA
       = (Inl (ImportError (''module '' @ ?pt @ '' not in sys.modules'')), ?wA)"
    using inst1 plainA getA cls specA by blast
  note inst3 = reload_of_resolved_proxy_fails [where w = demo_world and name = ?pt,
      THEN conjunct2, THEN conjunct2, unfolded len]
  have "\<exists>e. importlib_reload 1 ?wB = (Inl e, ?wB)"
    using inst3 plain bc own by blast
  then have rb: "snd (importlib_reload 1 ?wB) = ?wB" by auto
  have eb: "fst (importlib_reload 1 ?wB)
       = Inl (ImportError (''module '' @ ?pt @ '' not in sys.modules''))"
    by code_simp
  show ?thesis
    using plainA getA specA ra plain imp bc own rb eb by blast
qed

section \<open>The text that \<^verbatim>\<open>repr\<close> shows\<close>












section \<open>The three variants compared\<close>







end
